theory Spec2Isabelle
  imports Complex_Main
begin

section \<open>The SOFA import notebook (examples/Exp3\_Import\_SOFA.ipynb)\<close>

text \<open>
  The notebook opens a SOFA container with netCDF4, prints a summary, extracts the impulse
  responses of receivers 0 and 1, the source positions and the sampling rate, closes the
  container, converts the angles to radians (elevation to colatitude), builds one
  \<open>io.ArraySignal\<close> per ear and saves both with \<open>np.save\<close>.

  Conventions of the embedding:
  \<^item> a numpy array is its shape together with its elements in row-major order;
  \<^item> float64 values are idealised as real numbers (\<open>np.pi\<close> is \<open>pi\<close>); rounding, NaN and
    the masked arrays of netCDF4 are outside the model;
  \<^item> every Python object that the notebook binds to a name lives in a heap, a list of
    objects addressed by position, so that identity and sharing can be stated; no statement
    of the notebook updates an array in place, so a numpy view is not distinguished from
    a copy;
  \<^item> an exception is a value of type \<open>error\<close>; the cells run in order and the run stops at
    the first exception, keeping the state reached so far.
\<close>

subsection \<open>Arrays and the numpy / netCDF4 operations the notebook calls\<close>

record ndarray =
  shape :: "nat list"
  data :: "real list"

datatype error = IOError | IndexError | ValueError | TypeError

definition bind_err :: "error + 'a \<Rightarrow> ('a \<Rightarrow> error + 'b) \<Rightarrow> error + 'b" where
  "bind_err m f = (case m of Inl e \<Rightarrow> Inl e | Inr x \<Rightarrow> f x)"

text \<open>\<open>block off w xs\<close> is the slice \<open>xs[off : off + w]\<close> of the flat element list.\<close>

definition block :: "nat \<Rightarrow> nat \<Rightarrow> real list \<Rightarrow> real list" where
  "block off w xs = take w (drop off xs)"

text \<open>
  \<open>var[:, r, :]\<close> on a netCDF4 variable: the integer index selects along the second axis,
  which is removed from the result; an index beyond the axis raises IndexError, an indexing
  expression with more entries than the variable has dimensions raises ValueError.
\<close>

definition getitem_receiver :: "ndarray \<Rightarrow> nat \<Rightarrow> error + ndarray" where
  "getitem_receiver v r =
     (case shape v of
        m # k # n # rest \<Rightarrow>
          if r < k
          then let w = prod_list (n # rest)
               in Inr \<lparr>shape = m # n # rest,
                       data = concat (map (\<lambda>i. block ((i * k + r) * w) w (data v)) [0..<m])\<rparr>
          else Inl IndexError
      | _ \<Rightarrow> Inl ValueError)"

text \<open>\<open>var[i, j]\<close> on a netCDF4 variable: two integer indices, both axes removed.\<close>

definition getitem2 :: "ndarray \<Rightarrow> nat \<Rightarrow> nat \<Rightarrow> error + ndarray" where
  "getitem2 v i j =
     (case shape v of
        d0 # d1 # rest \<Rightarrow>
          if i < d0 \<and> j < d1
          then let w = prod_list rest
               in Inr \<lparr>shape = rest, data = block ((i * d1 + j) * w) w (data v)\<rparr>
          else Inl IndexError
      | _ \<Rightarrow> Inl ValueError)"

text \<open>\<open>a[0]\<close> on a numpy array: the first entry along the first axis.\<close>

definition getitem0 :: "ndarray \<Rightarrow> error + ndarray" where
  "getitem0 a =
     (case shape a of
        [] \<Rightarrow> Inl IndexError
      | d # rest \<Rightarrow>
          if d = 0 then Inl IndexError
          else Inr \<lparr>shape = rest, data = block 0 (prod_list rest) (data a)\<rparr>)"

text \<open>\<open>np.squeeze\<close> removes every axis of length one; the elements stay as they are.\<close>

definition np_squeeze :: "ndarray \<Rightarrow> ndarray" where
  "np_squeeze a = \<lparr>shape = filter (\<lambda>d. d \<noteq> 1) (shape a), data = data a\<rparr>"

text \<open>
  \<open>np.hsplit(a, k)\<close> cuts \<open>a\<close> into \<open>k\<close> equal sections, along the second axis (along the
  first one for a one-dimensional array); it raises ValueError for a zero-dimensional array
  and when the axis length is not a multiple of \<open>k\<close>.
\<close>

definition np_hsplit :: "ndarray \<Rightarrow> nat \<Rightarrow> error + ndarray list" where
  "np_hsplit a k =
     (case shape a of
        [] \<Rightarrow> Inl ValueError
      | [c] \<Rightarrow>
          if c mod k \<noteq> 0 then Inl ValueError
          else Inr (map (\<lambda>j. \<lparr>shape = [c div k],
                               data = block (j * (c div k)) (c div k) (data a)\<rparr>) [0..<k])
      | m # c # rest \<Rightarrow>
          if c mod k \<noteq> 0 then Inl ValueError
          else let w = (c div k) * prod_list rest
               in Inr (map (\<lambda>j. \<lparr>shape = m # (c div k) # rest,
                                    data = concat (map (\<lambda>i. block (i * c * prod_list rest + j * w) w (data a))
                                                       [0..<m])\<rparr>) [0..<k]))"

text \<open>
  \<open>np.asarray\<close> of a list of arrays (what \<open>np.squeeze\<close> does first to the list returned by
  \<open>np.hsplit\<close>): arrays of one shape are stacked along a new first axis.
\<close>

definition np_asarray :: "ndarray list \<Rightarrow> error + ndarray" where
  "np_asarray xs =
     (case xs of
        [] \<Rightarrow> Inr \<lparr>shape = [0], data = []\<rparr>
      | x # _ \<Rightarrow>
          if list_all (\<lambda>y. shape y = shape x) xs
          then Inr \<lparr>shape = length xs # shape x, data = concat (map data xs)\<rparr>
          else Inl ValueError)"

text \<open>
  \<open>Az, El, R = a\<close>: unpacking iterates over the first axis, which must have three entries;
  a zero-dimensional array cannot be iterated (TypeError).
\<close>

definition unpack3 :: "ndarray \<Rightarrow> error + (ndarray \<times> ndarray \<times> ndarray)" where
  "unpack3 a =
     (case shape a of
        [] \<Rightarrow> Inl TypeError
      | d # rest \<Rightarrow>
          if d \<noteq> 3 then Inl ValueError
          else let w = prod_list rest
               in Inr (\<lparr>shape = rest, data = block 0 w (data a)\<rparr>,
                       \<lparr>shape = rest, data = block w w (data a)\<rparr>,
                       \<lparr>shape = rest, data = block (2 * w) w (data a)\<rparr>))"

text \<open>Arithmetic of an array with a scalar and of two arrays of one shape is element-wise.\<close>

definition div_scalar :: "ndarray \<Rightarrow> real \<Rightarrow> ndarray" where
  "div_scalar a x = \<lparr>shape = shape a, data = map (\<lambda>v. v / x) (data a)\<rparr>"

definition mul_scalar :: "ndarray \<Rightarrow> real \<Rightarrow> ndarray" where
  "mul_scalar a x = \<lparr>shape = shape a, data = map (\<lambda>v. v * x) (data a)\<rparr>"

definition rsub_scalar :: "real \<Rightarrow> ndarray \<Rightarrow> ndarray" where
  "rsub_scalar x a = \<lparr>shape = shape a, data = map (\<lambda>v. x - v) (data a)\<rparr>"

definition sub_arrays :: "ndarray \<Rightarrow> ndarray \<Rightarrow> ndarray" where
  "sub_arrays a b = \<lparr>shape = shape a, data = map (\<lambda>(u, v). u - v) (zip (data a) (data b))\<rparr>"

subsection \<open>The container, the file system and the interpreter state\<close>

text \<open>
  A netCDF4 \<open>Dataset\<close> is read through its named variables; \<open>sofa_file[name]\<close> raises
  IndexError when there is no variable of that name.
\<close>

record container =
  variables :: "string \<Rightarrow> ndarray option"

definition getvar :: "container \<Rightarrow> string \<Rightarrow> error + ndarray" where
  "getvar c name = (case variables c name of None \<Rightarrow> Inl IndexError | Some v \<Rightarrow> Inr v)"

text \<open>
  The outside world of one run: the containers stored under each path, and the paths
  that can be written (\<open>np.save\<close> raises IOError on the others).
\<close>

record env =
  files :: "string \<Rightarrow> container option"
  writable :: "string \<Rightarrow> bool"

definition Dataset :: "env \<Rightarrow> string \<Rightarrow> error + container" where
  "Dataset e p = (case files e p of None \<Rightarrow> Inl IOError | Some c \<Rightarrow> Inr c)"

type_synonym ref = nat

text \<open>
  Modelled from the spec: the constructors \<open>io.TimeSignal\<close>, \<open>io.SphericalGrid\<close> and
  \<open>io.ArraySignal\<close> of the package \<open>sound_field_analysis\<close> are not among the sources.
  Following the Signal Assembler of the specification they are pure constructions without
  validation: a Time Signal refers to a matrix and a sampling rate, a Spherical Grid to three
  coordinate sequences, an Array Signal to one Time Signal and one Spherical Grid.
\<close>

datatype obj =
    Array ndarray
  | TimeSignal ref ref
  | SphericalGrid ref ref ref
  | ArraySignal ref ref

text \<open>What one saved file holds: the arrays reachable from an Array Signal.\<close>

record array_signal =
  ir_signal :: ndarray
  ir_fs :: ndarray
  grid_azimuth :: ndarray
  grid_colatitude :: ndarray
  grid_radius :: ndarray

record state =
  heap :: "obj list"
  handle_open :: bool
  written :: "(string \<times> array_signal) list"

definition init_state :: state where
  "init_state = \<lparr>heap = [], handle_open = False, written = []\<rparr>"

definition alloc :: "obj \<Rightarrow> state \<Rightarrow> ref \<times> state" where
  "alloc x s = (length (heap s), s\<lparr>heap := heap s @ [x]\<rparr>)"

definition obj_at :: "obj list \<Rightarrow> ref \<Rightarrow> obj option" where
  "obj_at h r = (if r < length h then Some (h ! r) else None)"

definition array_at :: "obj list \<Rightarrow> ref \<Rightarrow> ndarray option" where
  "array_at h r = (case obj_at h r of Some (Array a) \<Rightarrow> Some a | _ \<Rightarrow> None)"

definition read_signal :: "obj list \<Rightarrow> ref \<Rightarrow> array_signal option" where
  "read_signal h r =
     (case obj_at h r of
        Some (ArraySignal t g) \<Rightarrow>
          (case obj_at h t of
             Some (TimeSignal m f) \<Rightarrow>
               (case obj_at h g of
                  Some (SphericalGrid a c rd) \<Rightarrow>
                    (case array_at h m of None \<Rightarrow> None | Some vm \<Rightarrow>
                    (case array_at h f of None \<Rightarrow> None | Some vf \<Rightarrow>
                    (case array_at h a of None \<Rightarrow> None | Some va \<Rightarrow>
                    (case array_at h c of None \<Rightarrow> None | Some vc \<Rightarrow>
                    (case array_at h rd of None \<Rightarrow> None | Some vr \<Rightarrow>
                       Some \<lparr>ir_signal = vm, ir_fs = vf, grid_azimuth = va,
                             grid_colatitude = vc, grid_radius = vr\<rparr>)))))
                | _ \<Rightarrow> None)
           | _ \<Rightarrow> None)
      | _ \<Rightarrow> None)"

subsection \<open>The cells of the notebook\<close>

definition filename :: string where
  "filename = ''mit_kemar_large_pinna''"

definition path :: string where
  "path = ''sofa/''"

text \<open>
  Cell 3 prints the variables \<open>SourcePosition\<close> and \<open>Data.IR\<close> and the ear distance
  \<open>sofa_file['ReceiverPosition'][1, 1] - sofa_file['ReceiverPosition'][0, 1]\<close>. The printed
  text is not kept; the value computed for the last line is returned.
\<close>

definition cell3 :: "container \<Rightarrow> error + ndarray" where
  "cell3 sofa_file =
     bind_err (getvar sofa_file ''SourcePosition'') (\<lambda>_.
     bind_err (getvar sofa_file ''Data.IR'') (\<lambda>_.
     bind_err (getvar sofa_file ''ReceiverPosition'') (\<lambda>rp1.
     bind_err (getitem2 rp1 1 1) (\<lambda>y1.
     bind_err (getvar sofa_file ''ReceiverPosition'') (\<lambda>rp0.
     bind_err (getitem2 rp0 0 1) (\<lambda>y0.
       Inr (sub_arrays y1 y0)))))))"

text \<open>
  Cell 4, right-hand sides:
  \<^verbatim>\<open>np.squeeze(sofa_file['Data.IR'][:,r,:])\<close> for \<open>r = 0\<close> and \<open>r = 1\<close>,
  \<^verbatim>\<open>np.squeeze(np.hsplit(sofa_file['SourcePosition'][:], 3))\<close> unpacked into three names,
  \<^verbatim>\<open>sofa_file['Data.SamplingRate'][:][0]\<close>.
  The slice \<open>[:]\<close> reads the whole variable as an array, which the variable of the model
  already is.
\<close>

definition extract_IR :: "container \<Rightarrow> nat \<Rightarrow> error + ndarray" where
  "extract_IR sofa_file r =
     bind_err (getvar sofa_file ''Data.IR'') (\<lambda>v.
     bind_err (getitem_receiver v r) (\<lambda>a.
       Inr (np_squeeze a)))"

definition extract_SourcePosition :: "container \<Rightarrow> error + (ndarray \<times> ndarray \<times> ndarray)" where
  "extract_SourcePosition sofa_file =
     bind_err (getvar sofa_file ''SourcePosition'') (\<lambda>v.
     bind_err (np_hsplit v 3) (\<lambda>parts.
     bind_err (np_asarray parts) (\<lambda>stacked.
       unpack3 (np_squeeze stacked))))"

definition extract_fs :: "container \<Rightarrow> error + ndarray" where
  "extract_fs sofa_file =
     bind_err (getvar sofa_file ''Data.SamplingRate'') getitem0"

text \<open>Cell 4, statement by statement; each assignment binds a new object.\<close>

definition cell4 ::
  "container \<Rightarrow> state \<Rightarrow> state \<times> (error + (ref \<times> ref \<times> ref \<times> ref \<times> ref \<times> ref))" where
  "cell4 sofa_file s0 =
     (case extract_IR sofa_file 0 of Inl e \<Rightarrow> (s0, Inl e) | Inr l \<Rightarrow>
     (let (HRIRs_l, s1) = alloc (Array l) s0 in
     (case extract_IR sofa_file 1 of Inl e \<Rightarrow> (s1, Inl e) | Inr r \<Rightarrow>
     (let (HRIRs_r, s2) = alloc (Array r) s1 in
     (case extract_SourcePosition sofa_file of Inl e \<Rightarrow> (s2, Inl e) | Inr (az, el, rd) \<Rightarrow>
     (let (Az, s3) = alloc (Array az) s2;
          (El, s4) = alloc (Array el) s3;
          (R, s5) = alloc (Array rd) s4 in
     (case extract_fs sofa_file of Inl e \<Rightarrow> (s5, Inl e) | Inr f \<Rightarrow>
     (let (fs, s6) = alloc (Array f) s5 in
      (s6, Inr (HRIRs_l, HRIRs_r, Az, El, R, fs))))))))))"

text \<open>Cell 5: \<open>sofa_file.close()\<close>.\<close>

definition cell5 :: "state \<Rightarrow> state" where
  "cell5 s = s\<lparr>handle_open := False\<rparr>"

text \<open>
  Cell 6: \<^verbatim>\<open>azimuth = Az / 180*np.pi\<close> and \<^verbatim>\<open>colatitude = np.pi / 2 - El / 180 * np.pi\<close>,
  then one Array Signal per ear; the arguments of a call are evaluated from left to right.
  A name of the notebook always refers to a live array, so the TypeError of a reference
  that holds no array is never reached from \<open>notebook\<close>.
\<close>

definition azimuth_of :: "ndarray \<Rightarrow> ndarray" where
  "azimuth_of Az = mul_scalar (div_scalar Az 180) pi"

definition colatitude_of :: "ndarray \<Rightarrow> ndarray" where
  "colatitude_of El = rsub_scalar (pi / 2) (mul_scalar (div_scalar El 180) pi)"

definition cell6 ::
  "ref \<times> ref \<times> ref \<times> ref \<times> ref \<times> ref \<Rightarrow> state \<Rightarrow> state \<times> (error + (ref \<times> ref))" where
  "cell6 vars s0 =
     (case vars of (HRIRs_l, HRIRs_r, Az, El, R, fs) \<Rightarrow>
     (case array_at (heap s0) Az of None \<Rightarrow> (s0, Inl TypeError) | Some az \<Rightarrow>
     (let (azimuth, s1) = alloc (Array (azimuth_of az)) s0 in
     (case array_at (heap s1) El of None \<Rightarrow> (s1, Inl TypeError) | Some el \<Rightarrow>
     (let (colatitude, s2) = alloc (Array (colatitude_of el)) s1;
          (ts_l, s3) = alloc (TimeSignal HRIRs_l fs) s2;
          (grid_l, s4) = alloc (SphericalGrid azimuth colatitude R) s3;
          (hrir_full_l, s5) = alloc (ArraySignal ts_l grid_l) s4;
          (ts_r, s6) = alloc (TimeSignal HRIRs_r fs) s5;
          (grid_r, s7) = alloc (SphericalGrid azimuth colatitude R) s6;
          (hrir_full_r, s8) = alloc (ArraySignal ts_r grid_r) s7 in
      (s8, Inr (hrir_full_l, hrir_full_r)))))))"

text \<open>
  Cell 7: \<open>np.save(file, obj)\<close> appends \<open>.npy\<close> to a name that does not end with it and
  writes the object to that file. Modelled from the spec: the layout of the file is numpy's;
  following the Persistence Writer of the specification the file holds the matrix, the
  sampling rate and the three coordinate sequences of the Array Signal it is given.
\<close>

definition npy_name :: "string \<Rightarrow> string" where
  "npy_name file = (if drop (length file - 4) file = ''.npy'' then file else file @ ''.npy'')"

definition np_save :: "env \<Rightarrow> string \<Rightarrow> ref \<Rightarrow> state \<Rightarrow> state \<times> error option" where
  "np_save e file r s =
     (if \<not> writable e (npy_name file) then (s, Some IOError)
      else case read_signal (heap s) r of
             None \<Rightarrow> (s, Some TypeError)
           | Some v \<Rightarrow> (s\<lparr>written := written s @ [(npy_name file, v)]\<rparr>, None))"

definition cell7 :: "env \<Rightarrow> ref \<times> ref \<Rightarrow> state \<Rightarrow> state \<times> error option" where
  "cell7 e sigs s0 =
     (case sigs of (hrir_full_l, hrir_full_r) \<Rightarrow>
     (case np_save e (filename @ ''_L'') hrir_full_l s0 of
        (s1, Some err) \<Rightarrow> (s1, Some err)
      | (s1, None) \<Rightarrow> np_save e (filename @ ''_R'') hrir_full_r s1))"

text \<open>
  The whole notebook, cells in order: the final state and the exception that stopped the
  run, if any. Cell 2 opens \<^verbatim>\<open>path + filename + '.sofa'\<close>.
\<close>

definition sofa_path :: string where
  "sofa_path = path @ filename @ ''.sofa''"

definition notebook :: "env \<Rightarrow> state \<times> error option" where
  "notebook e =
     (case Dataset e sofa_path of
        Inl err \<Rightarrow> (init_state, Some err)
      | Inr sofa_file \<Rightarrow>
          (let s1 = init_state\<lparr>handle_open := True\<rparr> in
          (case cell3 sofa_file of
             Inl err \<Rightarrow> (s1, Some err)
           | Inr _ \<Rightarrow>
              (case cell4 sofa_file s1 of
                 (s2, Inl err) \<Rightarrow> (s2, Some err)
               | (s2, Inr vars) \<Rightarrow>
                   (case cell6 vars (cell5 s2) of
                      (s3, Inl err) \<Rightarrow> (s3, Some err)
                    | (s3, Inr sigs) \<Rightarrow> cell7 e sigs s3)))))"

subsection \<open>The layout of a SOFA container\<close>

text \<open>
  The summary printed by cell 2 lists the variables with their dimensions:
  \<open>ListenerPosition(I,C)\<close>, \<open>ReceiverPosition(R,C,I)\<close>, \<open>SourcePosition(M,C)\<close>,
  \<open>EmitterPosition(E,C,I)\<close>, \<open>Data.IR(M,R,N)\<close>, \<open>Data.SamplingRate(I)\<close>.
\<close>

definition has_var :: "container \<Rightarrow> string \<Rightarrow> nat list \<Rightarrow> bool" where
  "has_var c name shp =
     (case variables c name of
        None \<Rightarrow> False
      | Some v \<Rightarrow> shape v = shp \<and> length (data v) = prod_list shp)"

definition sofa_layout :: "container \<Rightarrow> nat \<Rightarrow> nat \<Rightarrow> nat \<Rightarrow> nat \<Rightarrow> nat \<Rightarrow> nat \<Rightarrow> bool" where
  "sofa_layout c I C R E N M =
     (has_var c ''ListenerPosition'' [I, C] \<and>
      has_var c ''ReceiverPosition'' [R, C, I] \<and>
      has_var c ''SourcePosition'' [M, C] \<and>
      has_var c ''EmitterPosition'' [E, C, I] \<and>
      has_var c ''Data.IR'' [M, R, N] \<and>
      has_var c ''Data.SamplingRate'' [I])"


subsection \<open>Derived notions used in the statements\<close>

text \<open>
  Section \<open>j\<close> of width \<open>w\<close> of a row-major \<open>(M, C)\<close> array: from every row the entries
  \<open>j * w\<close> up to \<open>j * w + w\<close>.
\<close>

definition column :: "ndarray \<Rightarrow> nat \<Rightarrow> nat \<Rightarrow> nat \<Rightarrow> nat \<Rightarrow> real list" where
  "column v M C w j = concat (map (\<lambda>i. block (i * C + j * w) w (data v)) [0..<M])"

text \<open>
  The state in which a run without exception ends, in terms of the six extracted arrays:
  fourteen objects in the order of their creation, the container closed, two files.
\<close>

definition success_state ::
  "ndarray \<Rightarrow> ndarray \<Rightarrow> ndarray \<Rightarrow> ndarray \<Rightarrow> ndarray \<Rightarrow> ndarray \<Rightarrow> state" where
  "success_state l r az el rd f =
     \<lparr>heap = [Array l, Array r, Array az, Array el, Array rd, Array f,
              Array (azimuth_of az), Array (colatitude_of el),
              TimeSignal 0 5, SphericalGrid 6 7 4, ArraySignal 8 9,
              TimeSignal 1 5, SphericalGrid 6 7 4, ArraySignal 11 12],
      handle_open = False,
      written =
        [(filename @ ''_L.npy'',
          \<lparr>ir_signal = l, ir_fs = f, grid_azimuth = azimuth_of az,
           grid_colatitude = colatitude_of el, grid_radius = rd\<rparr>),
         (filename @ ''_R.npy'',
          \<lparr>ir_signal = r, ir_fs = f, grid_azimuth = azimuth_of az,
           grid_colatitude = colatitude_of el, grid_radius = rd\<rparr>)]\<rparr>"

fun is_grid :: "obj \<Rightarrow> bool" where
  "is_grid (SphericalGrid _ _ _) = True"
| "is_grid _ = False"

fun is_signal :: "obj \<Rightarrow> bool" where
  "is_signal (ArraySignal _ _) = True"
| "is_signal _ = False"

subsection \<open>Concrete containers\<close>

text \<open>
  A container of the SOFA layout with the given dimension sizes, every variable filled
  with \<open>0, 1, 2, \<dots>\<close>; and an environment that holds one container under the path the
  notebook opens and in which every file can be written.
\<close>

definition filled :: "nat list \<Rightarrow> ndarray" where
  "filled shp = \<lparr>shape = shp, data = map real [0..<prod_list shp]\<rparr>"

definition example_container :: "nat \<Rightarrow> nat \<Rightarrow> nat \<Rightarrow> nat \<Rightarrow> nat \<Rightarrow> nat \<Rightarrow> container" where
  "example_container I C R E N M =
     \<lparr>variables =
        [''ListenerPosition'' \<mapsto> filled [I, C],
         ''ReceiverPosition'' \<mapsto> filled [R, C, I],
         ''SourcePosition'' \<mapsto> filled [M, C],
         ''EmitterPosition'' \<mapsto> filled [E, C, I],
         ''Data.IR'' \<mapsto> filled [M, R, N],
         ''Data.SamplingRate'' \<mapsto> filled [I]]\<rparr>"

text \<open>
  The same with two measurements whose source positions are \<open>(90, 0, 1.5)\<close> and
  \<open>(360, -90, 1.4)\<close> (degree, degree, metre).
\<close>

definition demo_container :: container where
  "demo_container =
     \<lparr>variables =
        (variables (example_container 1 3 2 1 2 2))
          (''SourcePosition'' \<mapsto> \<lparr>shape = [2, 3], data = [90, 0, 1.5, 360, - 90, 1.4]\<rparr>)\<rparr>"

definition example_env :: "container \<Rightarrow> env" where
  "example_env c = \<lparr>files = [sofa_path \<mapsto> c], writable = (\<lambda>_. True)\<rparr>"

text \<open>
  A state as cell 4 and cell 5 leave it: the six extracted arrays, the container closed.
\<close>

definition demo_extracted :: state where
  "demo_extracted =
     \<lparr>heap = [Array \<lparr>shape = [2, 2], data = [0, 1, 4, 5]\<rparr>,
              Array \<lparr>shape = [2, 2], data = [2, 3, 6, 7]\<rparr>,
              Array \<lparr>shape = [2], data = [90, 360]\<rparr>,
              Array \<lparr>shape = [2], data = [0, - 90]\<rparr>,
              Array \<lparr>shape = [2], data = [1.5, 1.4]\<rparr>,
              Array \<lparr>shape = [], data = [0]\<rparr>],
      handle_open = False, written = []\<rparr>"

section \<open>Auxiliary facts\<close>

subsection \<open>Slices and lengths\<close>

lemma length_block: "off + w \<le> length xs \<Longrightarrow> length (block off w xs) = w"
  by (simp add: block_def)

lemma length_concat_blocks:
  assumes "\<And>i. i < m \<Longrightarrow> length (f i) = w"
  shows "length (concat (map f [0..<m])) = m * w"
  using assms by (induction m) simp_all

lemma prod_list_squeeze: "prod_list (filter (\<lambda>d. d \<noteq> 1) xs) = prod_list (xs :: nat list)"
  by (induction xs) simp_all

lemma upt3: "[0..<3] = [0, 1, 2]"
  by (simp add: upt_rec)

lemma length_column:
  assumes "length (data v) = M * C" "C = 3 * w" "j < 3"
  shows "length (column v M C w j) = M * w"
  unfolding column_def
proof (rule length_concat_blocks)
  fix i assume i: "i < M"
  have "Suc j * w \<le> 3 * w" using assms(3) by (intro mult_le_mono1) simp
  then have "j * w + w \<le> C" using assms(2) by simp
  moreover have "Suc i * C \<le> M * C" using i by (intro mult_le_mono1) simp
  then have "i * C + C \<le> M * C" by simp
  ultimately have "i * C + j * w + w \<le> length (data v)" using assms(1) by simp
  then show "length (block (i * C + j * w) w (data v)) = w" by (rule length_block)
qed

lemma block_append3:
  assumes "length a = w" "length b = w" "length c = w"
  shows "block 0 w (a @ b @ c) = a" "block w w (a @ b @ c) = b" "block (2 * w) w (a @ b @ c) = c"
  using assms by (simp_all add: block_def)

subsection \<open>The extraction steps on a container of known layout\<close>

lemma has_varD:
  assumes "has_var c name shp"
  obtains v where "variables c name = Some v" "shape v = shp" "length (data v) = prod_list shp"
  using assms by (auto simp: has_var_def split: option.splits)

lemma extract_IR_ok:
  assumes "variables c ''Data.IR'' = Some v" "shape v = [M, R, N]" "r < R"
  shows "extract_IR c r =
     Inr \<lparr>shape = filter (\<lambda>d. d \<noteq> 1) [M, N],
          data = concat (map (\<lambda>i. block ((i * R + r) * N) N (data v)) [0..<M])\<rparr>"
  using assms by (simp add: extract_IR_def getvar_def bind_err_def getitem_receiver_def np_squeeze_def)

lemma extract_fs_ok:
  assumes "variables c ''Data.SamplingRate'' = Some v" "shape v = [I]" "0 < I"
  shows "extract_fs c = Inr \<lparr>shape = [], data = block 0 1 (data v)\<rparr>"
  using assms by (simp add: extract_fs_def getvar_def bind_err_def getitem0_def)

lemma cell3_ok:
  assumes "variables c ''SourcePosition'' = Some sp" "variables c ''Data.IR'' = Some ir"
    "variables c ''ReceiverPosition'' = Some rp" "shape rp = [R, C, I]" "2 \<le> R" "2 \<le> C"
  shows "\<exists>y. cell3 c = Inr y"
  using assms by (simp add: cell3_def getvar_def bind_err_def getitem2_def)

lemma cell3_few_receivers:
  assumes "variables c ''SourcePosition'' = Some sp" "variables c ''Data.IR'' = Some ir"
    "variables c ''ReceiverPosition'' = Some rp" "shape rp = [R, C, I]" "R < 2 \<or> C < 2"
  shows "cell3 c = Inl IndexError"
  using assms by (auto simp add: cell3_def getvar_def bind_err_def getitem2_def)

lemma np_hsplit_2d:
  assumes "shape v = [M, C]" "C mod 3 = 0"
  shows "np_hsplit v 3 = Inr (map (\<lambda>j. \<lparr>shape = [M, C div 3], data = column v M C (C div 3) j\<rparr>) [0, 1, 2])"
  using assms by (simp add: np_hsplit_def column_def upt3 Let_def)

lemma np_hsplit_uneven:
  assumes "shape v = [M, C]" "C mod 3 \<noteq> 0"
  shows "np_hsplit v 3 = Inl ValueError"
  using assms by (simp add: np_hsplit_def)

lemma unpack3_stacked:
  assumes "length a = prod_list rest" "length b = prod_list rest" "length c = prod_list rest"
  shows "unpack3 \<lparr>shape = 3 # rest, data = a @ b @ c\<rparr> =
     Inr (\<lparr>shape = rest, data = a\<rparr>, \<lparr>shape = rest, data = b\<rparr>, \<lparr>shape = rest, data = c\<rparr>)"
  using block_append3 [OF assms] by (simp add: unpack3_def Let_def)

lemma extract_SourcePosition_ok:
  assumes v: "variables c ''SourcePosition'' = Some v" and sh: "shape v = [M, C]"
    and len: "length (data v) = M * C" and C: "C mod 3 = 0"
  shows "extract_SourcePosition c =
     Inr (\<lparr>shape = filter (\<lambda>d. d \<noteq> 1) [M, C div 3], data = column v M C (C div 3) 0\<rparr>,
          \<lparr>shape = filter (\<lambda>d. d \<noteq> 1) [M, C div 3], data = column v M C (C div 3) 1\<rparr>,
          \<lparr>shape = filter (\<lambda>d. d \<noteq> 1) [M, C div 3], data = column v M C (C div 3) 2\<rparr>)"
proof -
  define w where "w = C div 3"
  define rest where "rest = filter (\<lambda>d. d \<noteq> 1) [M, w]"
  define c0 where "c0 = column v M C w 0"
  define c1 where "c1 = column v M C w 1"
  define c2 where "c2 = column v M C w 2"
  have C3: "C = 3 * w" using C by (simp add: w_def) presburger
  have p: "prod_list rest = M * w"
    unfolding rest_def by (simp only: prod_list_squeeze) simp
  have l: "length c0 = prod_list rest" "length c1 = prod_list rest" "length c2 = prod_list rest"
    using length_column [OF len C3] by (simp_all add: p c0_def c1_def c2_def)
  have split: "np_hsplit v 3 =
      Inr [\<lparr>shape = [M, w], data = c0\<rparr>, \<lparr>shape = [M, w], data = c1\<rparr>, \<lparr>shape = [M, w], data = c2\<rparr>]"
    using np_hsplit_2d [OF sh C] by (simp add: w_def c0_def c1_def c2_def)
  have stack: "np_asarray [\<lparr>shape = [M, w], data = c0\<rparr>, \<lparr>shape = [M, w], data = c1\<rparr>,
        \<lparr>shape = [M, w], data = c2\<rparr>] = Inr \<lparr>shape = [3, M, w], data = c0 @ c1 @ c2\<rparr>"
    by (simp add: np_asarray_def)
  have squeeze: "np_squeeze \<lparr>shape = [3, M, w], data = c0 @ c1 @ c2\<rparr> =
      \<lparr>shape = 3 # rest, data = c0 @ c1 @ c2\<rparr>"
    by (simp add: np_squeeze_def rest_def)
  have "extract_SourcePosition c = unpack3 \<lparr>shape = 3 # rest, data = c0 @ c1 @ c2\<rparr>"
    by (simp add: extract_SourcePosition_def getvar_def bind_err_def v split stack squeeze)
  also have "\<dots> = Inr (\<lparr>shape = rest, data = c0\<rparr>, \<lparr>shape = rest, data = c1\<rparr>, \<lparr>shape = rest, data = c2\<rparr>)"
    by (rule unpack3_stacked [OF l])
  finally show ?thesis
    by (simp only: rest_def w_def c0_def c1_def c2_def)
qed

lemma extract_SourcePosition_uneven:
  assumes "variables c ''SourcePosition'' = Some v" "shape v = [M, C]" "C mod 3 \<noteq> 0"
  shows "extract_SourcePosition c = Inl ValueError"
  using assms np_hsplit_uneven [of v M C]
  by (simp add: extract_SourcePosition_def getvar_def bind_err_def)

subsection \<open>The cells and the whole run\<close>

lemma npy_names:
  "npy_name (filename @ ''_L'') = filename @ ''_L.npy''"
  "npy_name (filename @ ''_R'') = filename @ ''_R.npy''"
  by (simp_all add: npy_name_def filename_def)

lemma cell4_ok:
  assumes "extract_IR c 0 = Inr l" "extract_IR c 1 = Inr r"
    "extract_SourcePosition c = Inr (az, el, rd)" "extract_fs c = Inr f"
  shows "cell4 c s =
     (s\<lparr>heap := heap s @ [Array l, Array r, Array az, Array el, Array rd, Array f]\<rparr>,
      Inr (length (heap s), length (heap s) + 1, length (heap s) + 2,
           length (heap s) + 3, length (heap s) + 4, length (heap s) + 5))"
  using assms by (simp add: cell4_def alloc_def)

lemma cell4_handle: "handle_open (fst (cell4 c s)) = handle_open s"
  by (simp add: cell4_def alloc_def split: sum.splits prod.splits)

lemma cell6_handle: "handle_open (fst (cell6 vars s)) = handle_open s"
  by (simp add: cell6_def alloc_def split: option.splits prod.splits)

lemma cell4_Inr:
  assumes "cell4 c s = (s', Inr vars)"
  shows "\<exists>l r az el rd f. extract_IR c 0 = Inr l \<and> extract_IR c 1 = Inr r \<and>
     extract_SourcePosition c = Inr (az, el, rd) \<and> extract_fs c = Inr f"
  using assms by (auto simp add: cell4_def alloc_def split: sum.splits prod.splits)

lemma notebook_success:
  assumes "files e sofa_path = Some c" "cell3 c = Inr y"
    "extract_IR c 0 = Inr l" "extract_IR c 1 = Inr r"
    "extract_SourcePosition c = Inr (az, el, rd)" "extract_fs c = Inr f"
    "writable e (filename @ ''_L.npy'')" "writable e (filename @ ''_R.npy'')"
  shows "notebook e = (success_state l r az el rd f, None)"
proof -
  define s2 where "s2 = fst (cell4 c (init_state\<lparr>handle_open := True\<rparr>))"
  define vars where "vars = (0::nat, 1::nat, 2::nat, 3::nat, 4::nat, 5::nat)"
  define sigs where "sigs = (10::nat, 13::nat)"
  define s3 where "s3 = (success_state l r az el rd f)\<lparr>written := []\<rparr>"
  have c4: "cell4 c (init_state\<lparr>handle_open := True\<rparr>) = (s2, Inr vars)"
    unfolding s2_def vars_def
    by (simp add: cell4_ok [OF assms(3-6)] init_state_def)
  have s2: "s2 = \<lparr>heap = [Array l, Array r, Array az, Array el, Array rd, Array f],
      handle_open = True, written = []\<rparr>"
    unfolding s2_def by (simp add: cell4_ok [OF assms(3-6)] init_state_def)
  have c6: "cell6 vars (cell5 s2) = (s3, Inr sigs)"
    unfolding s2 vars_def sigs_def s3_def
    by (simp add: cell6_def alloc_def array_at_def obj_at_def cell5_def success_state_def)
  have c7: "cell7 e sigs s3 = (success_state l r az el rd f, None)"
    unfolding sigs_def s3_def using assms(7,8)
    by (simp add: cell7_def np_save_def npy_names read_signal_def array_at_def obj_at_def
        success_state_def)
  show ?thesis
    by (simp only: notebook_def Dataset_def assms(1,2) option.case sum.case Let_def c4 c6 c7
        prod.case)
qed

lemma notebook_None:
  assumes "notebook e = (s, None)"
  shows "\<exists>c y l r az el rd f. files e sofa_path = Some c \<and> cell3 c = Inr y \<and>
     extract_IR c 0 = Inr l \<and> extract_IR c 1 = Inr r \<and>
     extract_SourcePosition c = Inr (az, el, rd) \<and> extract_fs c = Inr f \<and>
     writable e (filename @ ''_L.npy'') \<and> writable e (filename @ ''_R.npy'') \<and>
     s = success_state l r az el rd f"
proof -
  from assms obtain c where c: "files e sofa_path = Some c"
    by (auto simp: notebook_def Dataset_def split: option.splits)
  from assms c obtain y where y: "cell3 c = Inr y"
    by (auto simp: notebook_def Dataset_def Let_def split: sum.splits)
  from assms c y obtain s2 vars where c4: "cell4 c (init_state\<lparr>handle_open := True\<rparr>) = (s2, Inr vars)"
    by (auto simp: notebook_def Dataset_def Let_def split: sum.splits prod.splits)
  from cell4_Inr [OF c4] obtain l r az el rd f where
    x: "extract_IR c 0 = Inr l" "extract_IR c 1 = Inr r"
       "extract_SourcePosition c = Inr (az, el, rd)" "extract_fs c = Inr f"
    by blast
  have wl: "writable e (filename @ ''_L.npy'')"
    using assms c y c4 cell6_handle [of vars "cell5 s2"]
    by (auto simp add: notebook_def Dataset_def Let_def cell7_def np_save_def npy_names
        split: sum.splits prod.splits if_splits)
  have wr: "writable e (filename @ ''_R.npy'')"
    using assms c y c4
    by (auto simp add: notebook_def Dataset_def Let_def cell7_def np_save_def npy_names
        split: sum.splits prod.splits if_splits option.splits)
  have "s = success_state l r az el rd f"
    using assms notebook_success [OF c y x wl wr] by simp
  with c y x wl wr show ?thesis by blast
qed

lemma notebook_cell3_error:
  assumes "files e sofa_path = Some c" "cell3 c = Inl err"
  shows "notebook e = (init_state\<lparr>handle_open := True\<rparr>, Some err)"
  using assms by (simp add: notebook_def Dataset_def)

lemma notebook_open_error:
  assumes "files e sofa_path = None"
  shows "notebook e = (init_state, Some IOError)"
  using assms by (simp add: notebook_def Dataset_def)

lemma cell4_Inl:
  assumes "cell4 c s = (s', Inl err)"
  shows "isl (extract_IR c 0) \<or> isl (extract_IR c 1) \<or> isl (extract_SourcePosition c) \<or>
     isl (extract_fs c)"
  using assms by (auto simp add: cell4_def alloc_def split: sum.splits prod.splits)

lemma np_save_handle: "handle_open (fst (np_save e file r s)) = handle_open s"
  by (simp add: np_save_def split: option.splits)

lemma cell7_handle: "handle_open (fst (cell7 e sigs s)) = handle_open s"
proof (cases sigs)
  case (Pair hl hr)
  show ?thesis
  proof (cases "np_save e (filename @ ''_L'') hl s")
    case (Pair s1 res)
    then have "handle_open s1 = handle_open s"
      using np_save_handle [of e "filename @ ''_L''" hl s] by simp
    then show ?thesis
      using Pair \<open>sigs = (hl, hr)\<close> np_save_handle [of e "filename @ ''_R''" hr s1]
      by (cases res) (simp_all add: cell7_def)
  qed
qed

lemma notebook_after_extraction:
  assumes "files e sofa_path = Some c" "cell3 c = Inr y"
    "cell4 c (init_state\<lparr>handle_open := True\<rparr>) = (s2, Inr vars)"
  shows "\<not> handle_open (fst (notebook e))"
proof (cases "cell6 vars (cell5 s2)")
  case (Pair s3 res)
  then have h: "\<not> handle_open s3"
    using cell6_handle [of vars "cell5 s2"] by (simp add: cell5_def)
  show ?thesis
  proof (cases res)
    case (Inl err)
    then show ?thesis using assms Pair h by (simp add: notebook_def Dataset_def)
  next
    case (Inr sigs)
    then show ?thesis
      using assms Pair h cell7_handle [of e sigs s3] by (simp add: notebook_def Dataset_def)
  qed
qed

lemma notebook_extraction_error:
  assumes "files e sofa_path = Some c" "cell3 c = Inr y"
    "cell4 c (init_state\<lparr>handle_open := True\<rparr>) = (s2, Inl err)"
  shows "notebook e = (s2, Some err)" "handle_open s2"
  using assms cell4_handle [of c "init_state\<lparr>handle_open := True\<rparr>"]
  by (simp_all add: notebook_def Dataset_def)

subsection \<open>Runs on a container of the SOFA layout\<close>

lemma layout_few_receivers:
  assumes "files e sofa_path = Some c" "sofa_layout c I C R E N M" "R < 2"
  shows "notebook e = (init_state\<lparr>handle_open := True\<rparr>, Some IndexError)"
proof -
  from assms(2) obtain sp ir rp where
    "variables c ''SourcePosition'' = Some sp" "variables c ''Data.IR'' = Some ir"
    "variables c ''ReceiverPosition'' = Some rp" "shape rp = [R, C, I]"
    unfolding sofa_layout_def by (auto elim!: has_varD)
  then have "cell3 c = Inl IndexError"
    using assms(3) by (intro cell3_few_receivers) auto
  then show ?thesis using assms(1) by (rule notebook_cell3_error [rotated])
qed

lemma layout_success:
  assumes e: "files e sofa_path = Some c" and lay: "sofa_layout c I C R E N M"
    and dims: "2 \<le> R" "0 < I" "2 \<le> C" "C mod 3 = 0"
    and w: "writable e (filename @ ''_L.npy'')" "writable e (filename @ ''_R.npy'')"
  shows "\<exists>l r az el rd f. extract_IR c 0 = Inr l \<and> extract_IR c 1 = Inr r \<and>
     extract_SourcePosition c = Inr (az, el, rd) \<and> extract_fs c = Inr f \<and>
     notebook e = (success_state l r az el rd f, None)"
proof -
  from lay obtain sp ir rp fsv where v:
    "variables c ''SourcePosition'' = Some sp" "shape sp = [M, C]" "length (data sp) = M * C"
    "variables c ''Data.IR'' = Some ir" "shape ir = [M, R, N]"
    "variables c ''ReceiverPosition'' = Some rp" "shape rp = [R, C, I]"
    "variables c ''Data.SamplingRate'' = Some fsv" "shape fsv = [I]"
    unfolding sofa_layout_def by (auto elim!: has_varD)
  from cell3_ok [OF v(1) v(4) v(6) v(7) dims(1) dims(3)] obtain y where y: "cell3 c = Inr y" ..
  have r0: "0 < R" and r1: "1 < R" using dims(1) by simp_all
  note x = extract_IR_ok [OF v(4) v(5) r0] extract_IR_ok [OF v(4) v(5) r1]
    extract_SourcePosition_ok [OF v(1) v(2) v(3) dims(4)] extract_fs_ok [OF v(8) v(9) dims(2)]
  show ?thesis
    using notebook_success [OF e y x w] x by blast
qed

lemma layout_uneven_split:
  assumes e: "files e sofa_path = Some c" and lay: "sofa_layout c I C R E N M"
    and dims: "2 \<le> R" "2 \<le> C" "C mod 3 \<noteq> 0"
  shows "snd (notebook e) = Some ValueError" "handle_open (fst (notebook e))"
proof -
  from lay obtain sp ir rp where v:
    "variables c ''SourcePosition'' = Some sp" "shape sp = [M, C]"
    "variables c ''Data.IR'' = Some ir" "shape ir = [M, R, N]"
    "variables c ''ReceiverPosition'' = Some rp" "shape rp = [R, C, I]"
    unfolding sofa_layout_def by (auto elim!: has_varD)
  from cell3_ok [OF v(1) v(3) v(5) v(6) dims(1) dims(2)] obtain y where y: "cell3 c = Inr y" ..
  have r0: "0 < R" and r1: "1 < R" using dims(1) by simp_all
  have "\<exists>s2. cell4 c (init_state\<lparr>handle_open := True\<rparr>) = (s2, Inl ValueError)"
    using extract_IR_ok [OF v(3) v(4) r0] extract_IR_ok [OF v(3) v(4) r1]
      extract_SourcePosition_uneven [OF v(1) v(2) dims(3)]
    by (simp add: cell4_def alloc_def)
  then obtain s2 where c4: "cell4 c (init_state\<lparr>handle_open := True\<rparr>) = (s2, Inl ValueError)" ..
  from notebook_extraction_error [OF e y c4]
  show "snd (notebook e) = Some ValueError" "handle_open (fst (notebook e))" by simp_all
qed

subsection \<open>The concrete containers\<close>

lemma has_var_filled: "variables c name = Some (filled shp) \<Longrightarrow> has_var c name shp"
  by (simp add: has_var_def filled_def)

lemma example_layout: "sofa_layout (example_container I C R E N M) I C R E N M"
  by (simp add: sofa_layout_def example_container_def has_var_filled)

lemma demo_layout: "sofa_layout demo_container 1 3 2 1 2 2"
  by (simp add: sofa_layout_def demo_container_def example_container_def has_var_def filled_def)

lemma example_env_simps:
  "files (example_env c) sofa_path = Some c" "writable (example_env c) p"
  by (simp_all add: example_env_def)

lemma demo_SourcePosition:
  "variables demo_container ''SourcePosition'' =
     Some \<lparr>shape = [2, 3], data = [90, 0, 1.5, 360, - 90, 1.4]\<rparr>"
  by (simp add: demo_container_def)

lemma demo_run:
  "\<exists>l r az el rd f. notebook (example_env demo_container) = (success_state l r az el rd f, None)"
  using layout_success [OF example_env_simps(1) demo_layout] by (simp add: example_env_simps) blast

subsection \<open>The conversion, element by element\<close>

lemma block_unit: "n < length xs \<Longrightarrow> block n (Suc 0) xs = [xs ! n]"
  by (simp add: block_def take_Suc_conv_app_nth)

lemma column_unit:
  assumes "length (data v) = M * 3" "j < 3"
  shows "column v M 3 1 j = map (\<lambda>i. data v ! (3 * i + j)) [0..<M]"
proof -
  have "map (\<lambda>i. block (i * 3 + j * 1) 1 (data v)) [0..<M] =
      map (\<lambda>i. [data v ! (3 * i + j)]) [0..<M]"
  proof (rule map_cong [OF refl])
    fix i assume "i \<in> set [0..<M]"
    then have "i * 3 + j < length (data v)" using assms by simp
    then show "block (i * 3 + j * 1) 1 (data v) = [data v ! (3 * i + j)]"
      by (simp add: block_unit mult.commute)
  qed
  then have "column v M 3 1 j = concat (map (\<lambda>i. [data v ! (3 * i + j)]) [0..<M])"
    by (simp only: column_def)
  then show ?thesis by (simp only: concat_map_singleton)
qed

lemma azimuth_of_nth:
  "i < length (data a) \<Longrightarrow> data (azimuth_of a) ! i = data a ! i * pi / 180"
  by (simp add: azimuth_of_def mul_scalar_def div_scalar_def)

lemma colatitude_of_nth:
  "i < length (data a) \<Longrightarrow> data (colatitude_of a) ! i = pi / 2 - data a ! i * pi / 180"
  by (simp add: colatitude_of_def rsub_scalar_def mul_scalar_def div_scalar_def)

lemma conversion_shapes:
  "shape (azimuth_of a) = shape a" "shape (colatitude_of a) = shape a"
  "length (data (azimuth_of a)) = length (data a)"
  "length (data (colatitude_of a)) = length (data a)"
  by (simp_all add: azimuth_of_def colatitude_of_def rsub_scalar_def mul_scalar_def div_scalar_def)

lemma extract_SourcePosition_triplets:
  assumes "variables c ''SourcePosition'' = Some v" "shape v = [M, 3]" "length (data v) = M * 3"
  shows "extract_SourcePosition c =
     Inr (\<lparr>shape = filter (\<lambda>d. d \<noteq> 1) [M, 1], data = map (\<lambda>i. data v ! (3 * i)) [0..<M]\<rparr>,
          \<lparr>shape = filter (\<lambda>d. d \<noteq> 1) [M, 1], data = map (\<lambda>i. data v ! (3 * i + 1)) [0..<M]\<rparr>,
          \<lparr>shape = filter (\<lambda>d. d \<noteq> 1) [M, 1], data = map (\<lambda>i. data v ! (3 * i + 2)) [0..<M]\<rparr>)"
  using extract_SourcePosition_ok [OF assms(1,2,3)] column_unit [OF assms(3), of 0]
    column_unit [OF assms(3), of 1] column_unit [OF assms(3), of 2]
  by (simp del: filter.simps)

lemma length_receiver_slice:
  assumes "length xs = M * R * N" "r < R"
  shows "length (concat (map (\<lambda>i. block ((i * R + r) * N) N xs) [0..<M])) = M * N"
proof (rule length_concat_blocks)
  fix i assume "i < M"
  then have "Suc i * R \<le> M * R" by (intro mult_le_mono1) simp
  then have "Suc (i * R + r) \<le> M * R" using assms(2) by simp
  then have "Suc (i * R + r) * N \<le> M * R * N" by (rule mult_le_mono1)
  then have "(i * R + r) * N + N \<le> length xs" using assms(1) by simp
  then show "length (block ((i * R + r) * N) N xs) = N" by (rule length_block)
qed

lemma squeezed_pair_not_row:
  assumes "w \<noteq> 1"
  shows "filter (\<lambda>d. d \<noteq> 1) [M, w] \<noteq> [M]"
  using assms by auto

lemma example_IR: "variables (example_container I C R E N M) ''Data.IR'' = Some (filled [M, R, N])"
  by (simp add: example_container_def)

lemma example_SourcePosition:
  "variables (example_container I C R E N M) ''SourcePosition'' = Some (filled [M, C])"
  by (simp add: example_container_def)

lemma demo_run_collapse:
  "notebook (example_env demo_container) = (fst (notebook (example_env demo_container)), None)"
  using demo_run by auto

section \<open>The claims\<close>

subsection \<open>C1: the conversion formulas\<close>

text \<open>
  Claim C1. For every entry \<open>j\<close> of an array the conversion yields
  \<open>azimuth[j] = Az[j] * \<pi> / 180\<close> and \<open>colatitude[j] = \<pi>/2 - El[j] * \<pi> / 180\<close>, so that
  90 degrees of azimuth become \<open>\<pi>/2\<close> and 0 degrees of elevation the colatitude \<open>\<pi>/2\<close>; and in
  every run without exception on a container whose \<open>SourcePosition\<close> has shape \<open>(M, 3)\<close>,
  each saved grid holds, for every measurement \<open>i < M\<close>, the azimuth
  \<open>SourcePosition[i, 0] * \<pi> / 180\<close>, the colatitude \<open>\<pi>/2 - SourcePosition[i, 1] * \<pi> / 180\<close>
  and the radius \<open>SourcePosition[i, 2]\<close> unchanged. Floating-point values are read as real
  numbers. On the demonstration container, whose first source position is \<open>(90, 0, 1.5)\<close>,
  the saved grid starts with \<open>(\<pi>/2, \<pi>/2, 1.5)\<close>.
\<close>

theorem conversion_formulas:
  assumes run: "notebook e = (s, None)" and c: "files e sofa_path = Some c"
    and v: "variables c ''SourcePosition'' = Some v" and lay: "has_var c ''SourcePosition'' [M, 3]"
    and art: "(name, a) \<in> set (written s)" and i: "i < M" and j: "j < length (data x)"
  shows "data (azimuth_of x) ! j = data x ! j * pi / 180 \<and>
     data (colatitude_of x) ! j = pi / 2 - data x ! j * pi / 180 \<and>
     azimuth_of \<lparr>shape = [1], data = [90]\<rparr> = \<lparr>shape = [1], data = [pi / 2]\<rparr> \<and>
     colatitude_of \<lparr>shape = [1], data = [0]\<rparr> = \<lparr>shape = [1], data = [pi / 2]\<rparr> \<and>
     length (data (grid_azimuth a)) = M \<and> length (data (grid_colatitude a)) = M \<and>
     length (data (grid_radius a)) = M \<and>
     data (grid_azimuth a) ! i = data v ! (3 * i) * pi / 180 \<and>
     data (grid_colatitude a) ! i = pi / 2 - data v ! (3 * i + 1) * pi / 180 \<and>
     data (grid_radius a) ! i = data v ! (3 * i + 2)"
proof -
  from lay v have sh: "shape v = [M, 3]" and len: "length (data v) = M * 3"
    by (simp_all add: has_var_def)
  from notebook_None [OF run] c obtain l r az el rd f where
    x: "extract_SourcePosition c = Inr (az, el, rd)" and s: "s = success_state l r az el rd f"
    by auto
  from x extract_SourcePosition_triplets [OF v sh len]
  have d: "data az = map (\<lambda>i. data v ! (3 * i)) [0..<M]"
    "data el = map (\<lambda>i. data v ! (3 * i + 1)) [0..<M]"
    "data rd = map (\<lambda>i. data v ! (3 * i + 2)) [0..<M]"
    by auto
  from art s have g: "grid_azimuth a = azimuth_of az" "grid_colatitude a = colatitude_of el"
    "grid_radius a = rd"
    by (auto simp: success_state_def)
  have "azimuth_of \<lparr>shape = [1], data = [90]\<rparr> = \<lparr>shape = [1], data = [pi / 2]\<rparr>"
    by (simp add: azimuth_of_def mul_scalar_def div_scalar_def)
  moreover
  have "colatitude_of \<lparr>shape = [1], data = [0]\<rparr> = \<lparr>shape = [1], data = [pi / 2]\<rparr>"
    by (simp add: colatitude_of_def rsub_scalar_def mul_scalar_def div_scalar_def)
  ultimately show ?thesis
    using i j by (simp add: g azimuth_of_nth colatitude_of_nth conversion_shapes d)
qed

theorem conversion_formulas_witness:
  "data (azimuth_of \<lparr>shape = [1], data = [90]\<rparr>) ! 0 = pi / 2 \<and>
   data (colatitude_of \<lparr>shape = [1], data = [0]\<rparr>) ! 0 = pi / 2 \<and>
   data (grid_azimuth (snd (hd (written (fst (notebook (example_env demo_container))))))) ! 0 = pi / 2 \<and>
   data (grid_colatitude (snd (hd (written (fst (notebook (example_env demo_container))))))) ! 0 = pi / 2 \<and>
   data (grid_radius (snd (hd (written (fst (notebook (example_env demo_container))))))) ! 0 = 1.5"
proof -
  let ?e = "example_env demo_container"
  let ?s = "fst (notebook ?e)"
  let ?a = "snd (hd (written ?s))"
  from demo_run have run: "notebook ?e = (?s, None)" by auto
  from demo_run have art: "(fst (hd (written ?s)), ?a) \<in> set (written ?s)"
    by (auto simp: success_state_def)
  have lay: "has_var demo_container ''SourcePosition'' [2, 3]"
    by (simp add: has_var_def demo_SourcePosition)
  show ?thesis
    using conversion_formulas [OF run example_env_simps(1) demo_SourcePosition lay art,
        where i = 0 and j = 0 and x = "\<lparr>shape = [1], data = [90]\<rparr>"]
      conversion_formulas [OF run example_env_simps(1) demo_SourcePosition lay art,
        where i = 0 and j = 0 and x = "\<lparr>shape = [1], data = [0]\<rparr>"]
    by simp
qed

subsection \<open>C2: dimension validation\<close>

text \<open>
  Claim C2, as amended. For every container of the SOFA layout whose receiver count is less
  than 2 the run fails before any extraction: it stops in the summary of cell 3, where
  \<open>ReceiverPosition[1, 1]\<close> is indexed, in the state reached by opening the container, with
  no array extracted and no file written. The exception is IndexError, not a schema error,
  since the notebook has no validation step; in particular a container with one receiver is
  rejected with IndexError. A listener count or an emitter count other than 1 is no reason
  for rejection: every container of the layout with at least two receivers, at least one
  listener, any number of emitters and a component count that is a positive multiple of
  three runs to the end without exception when both output files can be written; in
  particular a container with two listeners is processed.
\<close>

theorem no_dimension_validation:
  assumes "files e sofa_path = Some c" and "sofa_layout c I C R E N M"
  shows "(R < 2 \<longrightarrow>
        notebook e = (init_state\<lparr>handle_open := True\<rparr>, Some IndexError) \<and>
        heap (fst (notebook e)) = [] \<and> written (fst (notebook e)) = [] \<and>
        cell3 c = Inl IndexError \<and>
        (\<exists>rp. variables c ''ReceiverPosition'' = Some rp \<and> getitem2 rp 1 1 = Inl IndexError)) \<and>
     (2 \<le> R \<and> 0 < I \<and> 2 \<le> C \<and> C mod 3 = 0 \<and>
      writable e (filename @ ''_L.npy'') \<and> writable e (filename @ ''_R.npy'')
        \<longrightarrow> snd (notebook e) = None)"
proof (rule conjI)
  show "R < 2 \<longrightarrow>
        notebook e = (init_state\<lparr>handle_open := True\<rparr>, Some IndexError) \<and>
        heap (fst (notebook e)) = [] \<and> written (fst (notebook e)) = [] \<and>
        cell3 c = Inl IndexError \<and>
        (\<exists>rp. variables c ''ReceiverPosition'' = Some rp \<and> getitem2 rp 1 1 = Inl IndexError)"
  proof
    assume R: "R < 2"
    from assms(2) obtain sp ir rp where v:
      "variables c ''SourcePosition'' = Some sp" "variables c ''Data.IR'' = Some ir"
      "variables c ''ReceiverPosition'' = Some rp" "shape rp = [R, C, I]"
      unfolding sofa_layout_def by (auto elim!: has_varD)
    have run: "notebook e = (init_state\<lparr>handle_open := True\<rparr>, Some IndexError)"
      by (rule layout_few_receivers [OF assms R])
    have c3: "cell3 c = Inl IndexError"
      using v R by (intro cell3_few_receivers) auto
    have idx: "getitem2 rp 1 1 = Inl IndexError"
      using v(4) R by (simp add: getitem2_def)
    have st: "heap (fst (notebook e)) = []" "written (fst (notebook e)) = []"
      by (simp_all add: run init_state_def)
    from run st c3 v(3) idx
    show "notebook e = (init_state\<lparr>handle_open := True\<rparr>, Some IndexError) \<and>
        heap (fst (notebook e)) = [] \<and> written (fst (notebook e)) = [] \<and>
        cell3 c = Inl IndexError \<and>
        (\<exists>rp. variables c ''ReceiverPosition'' = Some rp \<and> getitem2 rp 1 1 = Inl IndexError)"
      by blast
  qed
next
  show "2 \<le> R \<and> 0 < I \<and> 2 \<le> C \<and> C mod 3 = 0 \<and>
      writable e (filename @ ''_L.npy'') \<and> writable e (filename @ ''_R.npy'')
        \<longrightarrow> snd (notebook e) = None"
  proof
    assume a: "2 \<le> R \<and> 0 < I \<and> 2 \<le> C \<and> C mod 3 = 0 \<and>
      writable e (filename @ ''_L.npy'') \<and> writable e (filename @ ''_R.npy'')"
    then have "\<exists>l r az el rd f. extract_IR c 0 = Inr l \<and> extract_IR c 1 = Inr r \<and>
       extract_SourcePosition c = Inr (az, el, rd) \<and> extract_fs c = Inr f \<and>
       notebook e = (success_state l r az el rd f, None)"
      by (intro layout_success [OF assms]) simp_all
    then show "snd (notebook e) = None" by auto
  qed
qed

theorem no_dimension_validation_witness:
  "notebook (example_env (example_container 1 3 1 1 2 2)) =
     (init_state\<lparr>handle_open := True\<rparr>, Some IndexError) \<and>
   heap (fst (notebook (example_env (example_container 1 3 1 1 2 2)))) = [] \<and>
   written (fst (notebook (example_env (example_container 1 3 1 1 2 2)))) = [] \<and>
   cell3 (example_container 1 3 1 1 2 2) = Inl IndexError \<and>
   snd (notebook (example_env (example_container 2 3 2 5 2 2))) = None"
  using no_dimension_validation [OF example_env_simps(1) example_layout,
      where I = 1 and C = 3 and R = 1 and E = 1 and N = 2 and M = 2]
    no_dimension_validation [OF example_env_simps(1) example_layout,
      where I = 2 and C = 3 and R = 2 and E = 5 and N = 2 and M = 2]
  by (simp add: example_env_simps init_state_def)

text \<open>
  The claim as stated fails: a container with two listeners (\<open>I = 2\<close>) is not rejected,
  the run ends without exception.
\<close>

theorem listener_count_two_accepted:
  "sofa_layout (example_container 2 3 2 1 2 2) 2 3 2 1 2 2 \<and>
   snd (notebook (example_env (example_container 2 3 2 1 2 2))) = None"
proof -
  have "\<exists>l r az el rd f. extract_IR (example_container 2 3 2 1 2 2) 0 = Inr l \<and>
     extract_IR (example_container 2 3 2 1 2 2) 1 = Inr r \<and>
     extract_SourcePosition (example_container 2 3 2 1 2 2) = Inr (az, el, rd) \<and>
     extract_fs (example_container 2 3 2 1 2 2) = Inr f \<and>
     notebook (example_env (example_container 2 3 2 1 2 2)) = (success_state l r az el rd f, None)"
    by (rule layout_success [OF example_env_simps(1) example_layout]) (simp_all add: example_env_simps)
  then show ?thesis using example_layout by auto
qed

subsection \<open>C3: the shape of a receiver matrix\<close>

text \<open>
  Claim C3, as amended. For a container whose \<open>Data.IR\<close> has shape \<open>(M, R, N)\<close> with
  neither \<open>M\<close> nor \<open>N\<close> equal to one (in particular \<open>M \<ge> 2\<close> and \<open>N \<ge> 2\<close>) and every
  receiver index \<open>r < R\<close>, the extraction returns a matrix of shape exactly \<open>(M, N)\<close> with
  \<open>M * N\<close> entries; for \<open>(M, R, N) = (710, 2, 512)\<close> both receivers give shape
  \<open>(710, 512)\<close>.
\<close>

theorem extract_IR_shape:
  assumes "has_var c ''Data.IR'' [M, R, N]" and "r < R" and "M \<noteq> 1" and "N \<noteq> 1"
  shows "\<exists>a. extract_IR c r = Inr a \<and> shape a = [M, N] \<and> length (data a) = M * N"
proof -
  from assms(1) obtain v where v: "variables c ''Data.IR'' = Some v" "shape v = [M, R, N]"
    "length (data v) = prod_list [M, R, N]" by (rule has_varD)
  have "length (data v) = M * R * N" using v(3) by simp
  from length_receiver_slice [OF this assms(2)] extract_IR_ok [OF v(1,2) assms(2)] assms(3,4)
  show ?thesis by simp
qed

theorem extract_IR_shape_witness:
  "(\<exists>a. extract_IR (example_container 1 3 2 1 512 710) 0 = Inr a \<and> shape a = [710, 512] \<and>
        length (data a) = 710 * 512) \<and>
   (\<exists>a. extract_IR (example_container 1 3 2 1 512 710) 1 = Inr a \<and> shape a = [710, 512] \<and>
        length (data a) = 710 * 512)"
  using extract_IR_shape [OF has_var_filled [OF example_IR], where r = 0 and R = 2 and M = 710 and N = 512]
    extract_IR_shape [OF has_var_filled [OF example_IR], where r = 1 and R = 2 and M = 710 and N = 512]
  by simp

text \<open>
  The claim as stated fails where \<open>M = 1\<close> (or \<open>N = 1\<close>): \<open>np.squeeze\<close> removes that axis
  too, and a single measurement of two samples comes out with shape \<open>(2)\<close>, not \<open>(1, 2)\<close>.
\<close>

theorem single_measurement_squeezed:
  "has_var (example_container 1 3 2 1 2 1) ''Data.IR'' [1, 2, 2] \<and>
   extract_IR (example_container 1 3 2 1 2 1) 0 = Inr \<lparr>shape = [2], data = [0, 1]\<rparr>"
proof -
  have "extract_IR (example_container 1 3 2 1 2 1) 0 = Inr \<lparr>shape = [2], data = [0, 1]\<rparr>"
    by (simp add: extract_IR_ok [OF example_IR, where r = 0 and R = 2 and M = 1 and N = 2]
        filled_def block_def upt_rec)
  then show ?thesis using has_var_filled [OF example_IR] by simp
qed

subsection \<open>C4: release of the container handle\<close>

text \<open>
  Claim C4, as amended. The container is closed by cell 5 only, which follows the
  extraction. At the end of a run the handle is open exactly when the container could be
  opened and the summary of cell 3 or one of the four extraction steps of cell 4 raised:
  after a run without exception, a run whose open failed and a run that failed while
  saving, no handle is open; after an exception in cell 3 or cell 4 it still is.
\<close>

theorem handle_open_iff_extraction_raised:
  "handle_open (fst (notebook e)) \<longleftrightarrow>
     (\<exists>c. files e sofa_path = Some c \<and>
        (isl (cell3 c) \<or> isl (extract_IR c 0) \<or> isl (extract_IR c 1) \<or>
         isl (extract_SourcePosition c) \<or> isl (extract_fs c)))"
proof (cases "files e sofa_path")
  case None
  then show ?thesis using notebook_open_error [OF None] by (simp add: init_state_def)
next
  case (Some c)
  show ?thesis
  proof (cases "cell3 c")
    case (Inl err)
    then show ?thesis using Some notebook_cell3_error [OF Some Inl] by simp
  next
    case (Inr y)
    show ?thesis
    proof (cases "cell4 c (init_state\<lparr>handle_open := True\<rparr>)")
      case (Pair s2 res)
      show ?thesis
      proof (cases res)
        case (Inl err)
        with Pair have c4: "cell4 c (init_state\<lparr>handle_open := True\<rparr>) = (s2, Inl err)" by simp
        from notebook_extraction_error [OF Some Inr c4] cell4_Inl [OF c4] Some
        show ?thesis by auto
      next
        case (Inr vars)
        with Pair have c4: "cell4 c (init_state\<lparr>handle_open := True\<rparr>) = (s2, Inr vars)" by simp
        from cell4_Inr [OF c4] obtain l r az el rd f where
          "extract_IR c 0 = Inr l" "extract_IR c 1 = Inr r"
          "extract_SourcePosition c = Inr (az, el, rd)" "extract_fs c = Inr f" by blast
        then show ?thesis
          using notebook_after_extraction [OF Some \<open>cell3 c = Inr y\<close> c4] Some \<open>cell3 c = Inr y\<close>
          by simp
      qed
    qed
  qed
qed

theorem handle_open_iff_extraction_raised_witness:
  "\<not> handle_open (fst (notebook (example_env demo_container)))"
proof -
  from notebook_None [OF demo_run_collapse] obtain y l r az el rd f where
    "cell3 demo_container = Inr y" "extract_IR demo_container 0 = Inr l"
    "extract_IR demo_container 1 = Inr r" "extract_SourcePosition demo_container = Inr (az, el, rd)"
    "extract_fs demo_container = Inr f"
    by (auto simp: example_env_simps)
  then show ?thesis
    using handle_open_iff_extraction_raised [of "example_env demo_container"]
    by (simp add: example_env_simps)
qed

text \<open>
  The claim as stated fails: with four position components the split of the source
  positions raises ValueError, and the run ends with the handle open.
\<close>

theorem handle_left_open_on_split_error:
  "snd (notebook (example_env (example_container 1 4 2 1 2 2))) = Some ValueError \<and>
   handle_open (fst (notebook (example_env (example_container 1 4 2 1 2 2))))"
  using layout_uneven_split [OF example_env_simps(1) example_layout,
      where I = 1 and C = 4 and R = 2 and E = 1 and N = 2 and M = 2]
  by simp

subsection \<open>C5: the output artifacts\<close>

text \<open>
  Claim C5, as amended. For every container of the SOFA layout with \<open>R \<ge> 2\<close> receivers
  (at least one listener, a component count that is a positive multiple of three; the valid
  inputs have one listener and three components) and writable outputs, the run ends
  without exception and writes exactly two artifacts, whatever \<open>R\<close> is: the first, named
  by the base name followed by \<open>_L.npy\<close>, holds the matrix of receiver 0, the second,
  named by the base name followed by \<open>_R.npy\<close>, holds the matrix of receiver 1.
\<close>

theorem two_artifacts_left_right:
  assumes "files e sofa_path = Some c" and "sofa_layout c I C R E N M"
    and "2 \<le> R" "0 < I" "2 \<le> C" "C mod 3 = 0"
    and "writable e (filename @ ''_L.npy'')" "writable e (filename @ ''_R.npy'')"
  shows "snd (notebook e) = None \<and>
     (\<exists>aL aR. written (fst (notebook e)) = [(filename @ ''_L.npy'', aL), (filename @ ''_R.npy'', aR)] \<and>
        extract_IR c 0 = Inr (ir_signal aL) \<and> extract_IR c 1 = Inr (ir_signal aR))"
proof -
  from layout_success [OF assms] obtain l r az el rd f where
    "extract_IR c 0 = Inr l" "extract_IR c 1 = Inr r"
    "notebook e = (success_state l r az el rd f, None)" by blast
  then show ?thesis by (simp add: success_state_def)
qed

theorem two_artifacts_left_right_witness:
  "snd (notebook (example_env demo_container)) = None \<and>
     (\<exists>aL aR. written (fst (notebook (example_env demo_container))) =
          [(filename @ ''_L.npy'', aL), (filename @ ''_R.npy'', aR)] \<and>
        extract_IR demo_container 0 = Inr (ir_signal aL) \<and>
        extract_IR demo_container 1 = Inr (ir_signal aR))"
  by (rule two_artifacts_left_right [OF example_env_simps(1) demo_layout])
    (simp_all add: example_env_simps)

text \<open>
  The claim as stated fails: a valid container with three receivers yields two artifacts.
\<close>

theorem three_receivers_two_artifacts:
  "sofa_layout (example_container 1 3 3 1 2 2) 1 3 3 1 2 2 \<and>
   snd (notebook (example_env (example_container 1 3 3 1 2 2))) = None \<and>
   length (written (fst (notebook (example_env (example_container 1 3 3 1 2 2))))) = 2 \<and>
   length (written (fst (notebook (example_env (example_container 1 3 3 1 2 2))))) \<noteq> 3"
proof -
  have "\<exists>l r az el rd f. extract_IR (example_container 1 3 3 1 2 2) 0 = Inr l \<and>
     extract_IR (example_container 1 3 3 1 2 2) 1 = Inr r \<and>
     extract_SourcePosition (example_container 1 3 3 1 2 2) = Inr (az, el, rd) \<and>
     extract_fs (example_container 1 3 3 1 2 2) = Inr f \<and>
     notebook (example_env (example_container 1 3 3 1 2 2)) = (success_state l r az el rd f, None)"
    by (rule layout_success [OF example_env_simps(1) example_layout]) (simp_all add: example_env_simps)
  then show ?thesis using example_layout by (auto simp: success_state_def)
qed

subsection \<open>C6: construction of the Spherical Grid\<close>

text \<open>
  Claim C6, as amended. In every run without exception a Spherical Grid is constructed
  once per receiver channel, twice in all: each of the two Array Signals refers to a grid
  object of its own; the two grid objects refer to the same azimuth, colatitude and radius
  arrays, so the grids saved for the two channels hold identical values.
\<close>

theorem grid_built_per_channel:
  assumes "notebook e = (s, None)"
  shows "length (filter is_grid (heap s)) = 2 \<and>
     (\<exists>tl gl tr gr a co rd.
        filter is_signal (heap s) = [ArraySignal tl gl, ArraySignal tr gr] \<and> gl \<noteq> gr \<and>
        obj_at (heap s) gl = Some (SphericalGrid a co rd) \<and>
        obj_at (heap s) gr = Some (SphericalGrid a co rd)) \<and>
     (\<exists>nl al nr ar.
        written s = [(nl, al), (nr, ar)] \<and>
        grid_azimuth al = grid_azimuth ar \<and> grid_colatitude al = grid_colatitude ar \<and>
        grid_radius al = grid_radius ar)"
proof -
  from notebook_None [OF assms] obtain l r az el rd f where
    s: "s = success_state l r az el rd f" by blast
  have 1: "length (filter is_grid (heap s)) = 2"
    by (simp add: s success_state_def)
  have 2: "filter is_signal (heap s) = [ArraySignal 8 9, ArraySignal 11 12]"
    by (simp add: s success_state_def)
  have 3: "obj_at (heap s) 9 = Some (SphericalGrid 6 7 4)"
    "obj_at (heap s) 12 = Some (SphericalGrid 6 7 4)"
    by (simp_all add: s success_state_def obj_at_def)
  have "(9::nat) \<noteq> 12" by simp
  with 2 3 have 4: "\<exists>tl gl tr gr a co rd.
        filter is_signal (heap s) = [ArraySignal tl gl, ArraySignal tr gr] \<and> gl \<noteq> gr \<and>
        obj_at (heap s) gl = Some (SphericalGrid a co rd) \<and>
        obj_at (heap s) gr = Some (SphericalGrid a co rd)" by blast
  have 5: "\<exists>nl al nr ar.
        written s = [(nl, al), (nr, ar)] \<and>
        grid_azimuth al = grid_azimuth ar \<and> grid_colatitude al = grid_colatitude ar \<and>
        grid_radius al = grid_radius ar"
    by (simp add: s success_state_def)
  from 1 4 5 show ?thesis by blast
qed

theorem grid_built_per_channel_witness:
  "length (filter is_grid (heap (fst (notebook (example_env demo_container))))) = 2 \<and>
   (\<exists>nl al nr ar.
      written (fst (notebook (example_env demo_container))) = [(nl, al), (nr, ar)] \<and>
      grid_azimuth al = grid_azimuth ar \<and> grid_colatitude al = grid_colatitude ar \<and>
      grid_radius al = grid_radius ar)"
  using grid_built_per_channel [OF demo_run_collapse] by blast

text \<open>
  The claim as stated fails: the run on the demonstration container constructs two grids.
\<close>

theorem two_grids_constructed:
  "snd (notebook (example_env demo_container)) = None \<and>
   length (filter is_grid (heap (fst (notebook (example_env demo_container))))) = 2 \<and>
   length (filter is_grid (heap (fst (notebook (example_env demo_container))))) \<noteq> 1"
proof -
  from demo_run obtain l r az el rd f where
    "notebook (example_env demo_container) = (success_state l r az el rd f, None)" by blast
  then show ?thesis by (simp add: success_state_def)
qed

subsection \<open>C7: no clamping, wrap-around or normalisation\<close>

text \<open>
  Claim C7. The conversion is the bare formula for every entry: an azimuth below 0 degrees
  stays below 0, one of 360 degrees or more gives \<open>2\<pi>\<close> or more, an elevation below -90
  degrees gives a colatitude above \<open>\<pi>\<close>, one above 90 degrees a colatitude below 0; in
  particular 360 degrees become \<open>2\<pi>\<close> (not 0) and the elevation -90 degrees becomes the
  colatitude \<open>\<pi>\<close>.
\<close>

theorem no_clamping:
  assumes "i < length (data a)"
  shows "data (azimuth_of a) ! i = data a ! i * pi / 180 \<and>
     data (colatitude_of a) ! i = pi / 2 - data a ! i * pi / 180 \<and>
     (data a ! i < 0 \<longrightarrow> data (azimuth_of a) ! i < 0) \<and>
     (360 \<le> data a ! i \<longrightarrow> 2 * pi \<le> data (azimuth_of a) ! i) \<and>
     (data a ! i < - 90 \<longrightarrow> pi < data (colatitude_of a) ! i) \<and>
     (90 < data a ! i \<longrightarrow> data (colatitude_of a) ! i < 0) \<and>
     azimuth_of \<lparr>shape = [1], data = [360]\<rparr> = \<lparr>shape = [1], data = [2 * pi]\<rparr> \<and>
     colatitude_of \<lparr>shape = [1], data = [- 90]\<rparr> = \<lparr>shape = [1], data = [pi]\<rparr>"
proof -
  let ?x = "data a ! i"
  have az: "data (azimuth_of a) ! i = ?x * pi / 180" using assms by (rule azimuth_of_nth)
  have co: "data (colatitude_of a) ! i = pi / 2 - ?x * pi / 180" using assms by (rule colatitude_of_nth)
  have p: "0 < pi" by (rule pi_gt_zero)
  have 1: "?x < 0 \<longrightarrow> data (azimuth_of a) ! i < 0"
    unfolding az using p by (simp add: mult_less_0_iff)
  have 2: "360 \<le> ?x \<longrightarrow> 2 * pi \<le> data (azimuth_of a) ! i"
  proof
    assume "360 \<le> ?x"
    then have "360 * pi \<le> ?x * pi" using p by (intro mult_right_mono) simp_all
    then show "2 * pi \<le> data (azimuth_of a) ! i" unfolding az by simp
  qed
  have 3: "?x < - 90 \<longrightarrow> pi < data (colatitude_of a) ! i"
  proof
    assume "?x < - 90"
    then have "?x * pi < (- 90) * pi" using p by (intro mult_strict_right_mono) simp_all
    then show "pi < data (colatitude_of a) ! i" unfolding co by simp
  qed
  have 4: "90 < ?x \<longrightarrow> data (colatitude_of a) ! i < 0"
  proof
    assume "90 < ?x"
    then have "90 * pi < ?x * pi" using p by (intro mult_strict_right_mono) simp_all
    then show "data (colatitude_of a) ! i < 0" unfolding co by simp
  qed
  have 5: "azimuth_of \<lparr>shape = [1], data = [360]\<rparr> = \<lparr>shape = [1], data = [2 * pi]\<rparr>"
    by (simp add: azimuth_of_def mul_scalar_def div_scalar_def)
  have 6: "colatitude_of \<lparr>shape = [1], data = [- 90]\<rparr> = \<lparr>shape = [1], data = [pi]\<rparr>"
    by (simp add: colatitude_of_def rsub_scalar_def mul_scalar_def div_scalar_def)
  show ?thesis using az co 1 2 3 4 5 6 by blast
qed

theorem no_clamping_witness:
  "data (azimuth_of \<lparr>shape = [2], data = [360, - 1]\<rparr>) ! 0 = 2 * pi \<and>
   data (azimuth_of \<lparr>shape = [2], data = [360, - 1]\<rparr>) ! 1 < 0 \<and>
   data (colatitude_of \<lparr>shape = [2], data = [- 91, 91]\<rparr>) ! 0 > pi \<and>
   data (colatitude_of \<lparr>shape = [2], data = [- 91, 91]\<rparr>) ! 1 < 0"
  using no_clamping [where a = "\<lparr>shape = [2], data = [360, - 1]\<rparr>" and i = 0]
    no_clamping [where a = "\<lparr>shape = [2], data = [360, - 1]\<rparr>" and i = 1]
    no_clamping [where a = "\<lparr>shape = [2], data = [- 91, 91]\<rparr>" and i = 0]
    no_clamping [where a = "\<lparr>shape = [2], data = [- 91, 91]\<rparr>" and i = 1]
  by simp

subsection \<open>C9: the component count is assumed to be three\<close>

text \<open>
  Claim C9. For a \<open>SourcePosition\<close> of shape \<open>(M, C)\<close>: when \<open>C\<close> is not divisible by
  three the split raises ValueError, and so does the extraction; when \<open>C\<close> is a multiple of
  three other than three, the extraction succeeds but none of azimuth, elevation and radius
  has the shape \<open>(M)\<close> of a sequence of \<open>M\<close> values; and nothing checks \<open>C = 3\<close>: on a
  container of the SOFA layout with \<open>C = 6, 9, \<dots>\<close> the whole run ends without exception.
\<close>

theorem component_count_unchecked:
  assumes "has_var c ''SourcePosition'' [M, C]"
  shows "(C mod 3 \<noteq> 0 \<longrightarrow>
        bind_err (getvar c ''SourcePosition'') (\<lambda>v. np_hsplit v 3) = Inl ValueError \<and>
        extract_SourcePosition c = Inl ValueError) \<and>
     (C mod 3 = 0 \<and> C \<noteq> 3 \<longrightarrow>
        (\<exists>Az El R. extract_SourcePosition c = Inr (Az, El, R) \<and>
           shape Az \<noteq> [M] \<and> shape El \<noteq> [M] \<and> shape R \<noteq> [M])) \<and>
     (files e sofa_path = Some c \<and> sofa_layout c I C R E N M \<and> 2 \<le> R \<and> 0 < I \<and>
      3 < C \<and> C mod 3 = 0 \<and>
      writable e (filename @ ''_L.npy'') \<and> writable e (filename @ ''_R.npy'')
        \<longrightarrow> snd (notebook e) = None)"
proof (intro conjI impI)
  from assms obtain v where v: "variables c ''SourcePosition'' = Some v" "shape v = [M, C]"
    "length (data v) = prod_list [M, C]" by (rule has_varD)
  {
    assume C: "C mod 3 \<noteq> 0"
    show "bind_err (getvar c ''SourcePosition'') (\<lambda>v. np_hsplit v 3) = Inl ValueError"
      using v(1) np_hsplit_uneven [OF v(2) C] by (simp add: bind_err_def getvar_def)
    show "extract_SourcePosition c = Inl ValueError"
      by (rule extract_SourcePosition_uneven [OF v(1,2) C])
  }
  {
    assume C: "C mod 3 = 0 \<and> C \<noteq> 3"
    then have w: "C div 3 \<noteq> 1" by presburger
    have len: "length (data v) = M * C" using v(3) by simp
    from C have "C mod 3 = 0" ..
    from extract_SourcePosition_ok [OF v(1,2) len this] squeezed_pair_not_row [OF w, of M]
    show "\<exists>Az El R. extract_SourcePosition c = Inr (Az, El, R) \<and>
           shape Az \<noteq> [M] \<and> shape El \<noteq> [M] \<and> shape R \<noteq> [M]"
      by (simp del: filter.simps)
  }
  {
    assume a: "files e sofa_path = Some c \<and> sofa_layout c I C R E N M \<and> 2 \<le> R \<and> 0 < I \<and>
      3 < C \<and> C mod 3 = 0 \<and>
      writable e (filename @ ''_L.npy'') \<and> writable e (filename @ ''_R.npy'')"
    then have "\<exists>l r az el rd f. extract_IR c 0 = Inr l \<and> extract_IR c 1 = Inr r \<and>
       extract_SourcePosition c = Inr (az, el, rd) \<and> extract_fs c = Inr f \<and>
       notebook e = (success_state l r az el rd f, None)"
      by (intro layout_success [where I = I and C = C and R = R and E = E and N = N and M = M])
        simp_all
    then show "snd (notebook e) = None" by auto
  }
qed

theorem component_count_unchecked_witness:
  "extract_SourcePosition (example_container 1 4 2 1 2 2) = Inl ValueError \<and>
   (\<exists>Az El R. extract_SourcePosition (example_container 1 6 2 1 2 2) = Inr (Az, El, R) \<and>
      shape Az \<noteq> [2] \<and> shape El \<noteq> [2] \<and> shape R \<noteq> [2]) \<and>
   snd (notebook (example_env (example_container 1 6 2 1 2 2))) = None"
  using component_count_unchecked [OF has_var_filled [OF example_SourcePosition],
      where M = 2 and C = 4 and I = 1 and R = 2 and E = 1 and N = 2]
    component_count_unchecked [OF has_var_filled [OF example_SourcePosition],
      where M = 2 and C = 6 and I = 1 and R = 2 and E = 1 and N = 2
        and e = "example_env (example_container 1 6 2 1 2 2)"]
    example_layout [of 1 6 2 1 2 2]
  by (simp add: example_env_simps)

subsection \<open>C10: the conversion leaves the extracted arrays alone\<close>

text \<open>
  Claim C10. Cell 6, started in any state in which \<open>Az\<close>, \<open>El\<close> and \<open>R\<close> refer to arrays,
  does not fail and changes no existing object: the three arrays are as before; azimuth and
  colatitude are new objects, distinct from every earlier one and from each other, holding
  the converted values; and the grids of both channels refer to these two new arrays and to
  the very array \<open>R\<close>, so both hold equal coordinate sequences.
\<close>

theorem conversion_leaves_extracted_arrays:
  assumes "array_at (heap s) Az = Some az" and "array_at (heap s) El = Some el"
    and "array_at (heap s) R = Some rd"
  shows "\<exists>s' hl hr tl tr gl gr azimuth colatitude.
     cell6 (HL, HR, Az, El, R, fs) s = (s', Inr (hl, hr)) \<and>
     take (length (heap s)) (heap s') = heap s \<and>
     array_at (heap s') Az = Some az \<and> array_at (heap s') El = Some el \<and>
     array_at (heap s') R = Some rd \<and>
     length (heap s) \<le> azimuth \<and> length (heap s) \<le> colatitude \<and> azimuth \<noteq> colatitude \<and>
     array_at (heap s') azimuth = Some (azimuth_of az) \<and>
     array_at (heap s') colatitude = Some (colatitude_of el) \<and>
     obj_at (heap s') hl = Some (ArraySignal tl gl) \<and>
     obj_at (heap s') hr = Some (ArraySignal tr gr) \<and>
     obj_at (heap s') gl = Some (SphericalGrid azimuth colatitude R) \<and>
     obj_at (heap s') gr = Some (SphericalGrid azimuth colatitude R)"
proof -
  let ?n = "length (heap s)"
  let ?new = "[Array (azimuth_of az), Array (colatitude_of el), TimeSignal HL fs,
     SphericalGrid ?n (?n + 1) R, ArraySignal (?n + 2) (?n + 3), TimeSignal HR fs,
     SphericalGrid ?n (?n + 1) R, ArraySignal (?n + 5) (?n + 6)]"
  let ?s' = "s\<lparr>heap := heap s @ ?new\<rparr>"
  have lt: "Az < ?n" "El < ?n" "R < ?n"
    using assms by (auto simp: array_at_def obj_at_def split: if_splits)
  have el': "array_at (heap s @ [Array (azimuth_of az)]) El = Some el"
    using assms(2) lt(2) by (simp add: array_at_def obj_at_def nth_append)
  have c6: "cell6 (HL, HR, Az, El, R, fs) s = (?s', Inr (?n + 4, ?n + 7))"
    using assms(1) el' by (simp add: cell6_def alloc_def)
  have old: "array_at (heap ?s') Az = Some az" "array_at (heap ?s') El = Some el"
    "array_at (heap ?s') R = Some rd"
    using assms lt by (simp_all add: array_at_def obj_at_def nth_append)
  have new: "array_at (heap ?s') ?n = Some (azimuth_of az)"
    "array_at (heap ?s') (?n + 1) = Some (colatitude_of el)"
    "obj_at (heap ?s') (?n + 4) = Some (ArraySignal (?n + 2) (?n + 3))"
    "obj_at (heap ?s') (?n + 7) = Some (ArraySignal (?n + 5) (?n + 6))"
    "obj_at (heap ?s') (?n + 3) = Some (SphericalGrid ?n (?n + 1) R)"
    "obj_at (heap ?s') (?n + 6) = Some (SphericalGrid ?n (?n + 1) R)"
    by (simp_all add: array_at_def obj_at_def nth_append)
  have pre: "take ?n (heap ?s') = heap s" by simp
  have fresh: "?n \<le> ?n" "?n \<le> ?n + 1" "?n \<noteq> ?n + 1" by simp_all
  from c6 pre old new fresh show ?thesis by blast
qed

theorem conversion_leaves_extracted_arrays_witness:
  "\<exists>s' hl hr tl tr gl gr azimuth colatitude.
     cell6 (0, 1, 2, 3, 4, 5) demo_extracted = (s', Inr (hl, hr)) \<and>
     take (length (heap demo_extracted)) (heap s') = heap demo_extracted \<and>
     array_at (heap s') 2 = Some \<lparr>shape = [2], data = [90, 360]\<rparr> \<and>
     array_at (heap s') 3 = Some \<lparr>shape = [2], data = [0, - 90]\<rparr> \<and>
     array_at (heap s') 4 = Some \<lparr>shape = [2], data = [1.5, 1.4]\<rparr> \<and>
     length (heap demo_extracted) \<le> azimuth \<and> length (heap demo_extracted) \<le> colatitude \<and>
     azimuth \<noteq> colatitude \<and>
     array_at (heap s') azimuth = Some (azimuth_of \<lparr>shape = [2], data = [90, 360]\<rparr>) \<and>
     array_at (heap s') colatitude = Some (colatitude_of \<lparr>shape = [2], data = [0, - 90]\<rparr>) \<and>
     obj_at (heap s') hl = Some (ArraySignal tl gl) \<and>
     obj_at (heap s') hr = Some (ArraySignal tr gr) \<and>
     obj_at (heap s') gl = Some (SphericalGrid azimuth colatitude 4) \<and>
     obj_at (heap s') gr = Some (SphericalGrid azimuth colatitude 4)"
  by (rule conversion_leaves_extracted_arrays)
    (simp_all add: demo_extracted_def array_at_def obj_at_def)

end
